theory Spec2Isabelle
  imports Main "HOL-Library.Stream"
begin

section \<open>Strings\<close>

text \<open>
  Python \<open>str\<close> values are modelled as \<open>string\<close> (lists of 8-bit characters).
  The helpers below are the \<open>str\<close> methods the script and the library functions
  it calls rely on.
\<close>

definition startswith :: "string \<Rightarrow> string \<Rightarrow> bool" where
  "startswith s p = (take (length p) s = p)"

definition endswith :: "string \<Rightarrow> string \<Rightarrow> bool" where
  "endswith s p = (length p \<le> length s \<and> drop (length s - length p) s = p)"

text \<open>\<open>s.split(c)\<close>: the pieces between the occurrences of \<open>c\<close>; never the empty list.\<close>

fun str_split :: "char \<Rightarrow> string \<Rightarrow> string list" where
  "str_split c [] = [[]]"
| "str_split c (x # xs) =
     (if x = c then [] # str_split c xs
      else (case str_split c xs of
              [] \<Rightarrow> [[x]]
            | w # ws \<Rightarrow> (x # w) # ws))"

text \<open>\<open>sep.join(ws)\<close>.\<close>

fun str_join :: "string \<Rightarrow> string list \<Rightarrow> string" where
  "str_join sep [] = []"
| "str_join sep [w] = w"
| "str_join sep (w # ws) = w @ sep @ str_join sep ws"

text \<open>\<open>s.rstrip(c)\<close> for a single character \<open>c\<close>.\<close>

definition rstrip_char :: "char \<Rightarrow> string \<Rightarrow> string" where
  "rstrip_char c s = rev (dropWhile (\<lambda>x. x = c) (rev s))"

text \<open>\<open>str(n)\<close> for a non-negative integer.\<close>

definition digit_char :: "nat \<Rightarrow> char" where
  "digit_char d = ''0123456789'' ! d"

fun str_of_nat :: "nat \<Rightarrow> string" where
  "str_of_nat n =
     (if n < 10 then [digit_char n]
      else str_of_nat (n div 10) @ [digit_char (n mod 10)])"

section \<open>Path functions of the standard library (\<open>posixpath\<close>)\<close>

text \<open>
  The script calls \<open>os.path.abspath\<close>, \<open>os.path.dirname\<close> and \<open>os.path.join\<close>.
  They are pure string functions; the definitions follow \<open>posixpath.py\<close> of CPython
  statement by statement. \<open>os.getcwd()\<close>, which \<open>abspath\<close> reads, is an explicit
  argument.
\<close>

definition isabs :: "string \<Rightarrow> bool" where
  "isabs s = startswith s ''/''"

text \<open>\<open>join(a, b)\<close> with one further component, as every call here has.\<close>

definition posixpath_join :: "string \<Rightarrow> string \<Rightarrow> string" where
  "posixpath_join path b =
     (if startswith b ''/'' then b
      else if path = [] \<or> endswith path ''/'' then path @ b
      else path @ ''/'' @ b)"

text \<open>
  The number of leading slashes \<open>normpath\<close> keeps: \<open>False\<close> (0), \<open>True\<close> (1), or 2 when
  the path starts with exactly two.
\<close>

definition initial_slashes :: "string \<Rightarrow> nat" where
  "initial_slashes path =
     (if \<not> startswith path ''/'' then 0
      else if startswith path ''//'' \<and> \<not> startswith path ''///'' then 2
      else 1)"

text \<open>One iteration of the loop \<open>for comp in comps\<close> of \<open>normpath\<close>.\<close>

definition normpath_step :: "nat \<Rightarrow> string list \<Rightarrow> string \<Rightarrow> string list" where
  "normpath_step ini new_comps cmp =
     (if cmp = [] \<or> cmp = ''.'' then new_comps
      else if cmp \<noteq> ''..'' \<or> (ini = 0 \<and> new_comps = [])
                \<or> (new_comps \<noteq> [] \<and> last new_comps = ''..'')
        then new_comps @ [cmp]
      else if new_comps \<noteq> [] then butlast new_comps
      else new_comps)"

definition normpath :: "string \<Rightarrow> string" where
  "normpath path =
     (if path = [] then ''.''
      else
        let ini = initial_slashes path;
            comps = foldl (normpath_step ini) [] (str_split CHR ''/'' path);
            p = replicate ini CHR ''/'' @ str_join ''/'' comps
        in if p = [] then ''.'' else p)"

definition abspath :: "string \<Rightarrow> string \<Rightarrow> string" where
  "abspath cwd path =
     normpath (if \<not> isabs path then posixpath_join cwd path else path)"

definition dirname :: "string \<Rightarrow> string" where
  "dirname p =
     (let head = rev (dropWhile (\<lambda>x. x \<noteq> CHR ''/'') (rev p))
      in if head \<noteq> [] \<and> head \<noteq> replicate (length head) CHR ''/''
         then rstrip_char CHR ''/'' head else head)"

section \<open>The host the script runs on\<close>

text \<open>
  Everything the script does besides computing paths is a call into the operating
  system through the standard library, and each call either succeeds or raises. The
  record \<open>host\<close> fixes, for one invocation, the inputs of the process (\<open>sys.argv\<close>,
  \<open>__file__\<close>, the working directory of the invoker) and the answer of the system to
  each call the script can make: \<open>None\<close> when the call succeeds, \<open>Some e\<close> when it
  raises \<open>e\<close>.
\<close>

datatype py_exception =
    FileNotFoundError
  | NotADirectoryError
  | PermissionError
  | OSError
  | SSLError
  | AttributeError

text \<open>
  The standard error stream of the process, as it is for the whole run: open and
  writable; open, but every write to it raises \<open>OSError\<close> (a pipe whose reader has
  gone, a full disk); or absent, when descriptor 2 was closed at the start and the
  interpreter has set \<open>sys.stderr\<close> to \<open>None\<close>.
\<close>

datatype stream_state = Writable | Unwritable | Absent

record host =
  argv :: "string list"
    \<comment> \<open>\<open>sys.argv\<close>; \<open>argv[0]\<close> is the script name\<close>
  script_file :: string
    \<comment> \<open>\<open>__file__\<close> as the interpreter set it\<close>
  getcwd :: string
    \<comment> \<open>\<open>os.getcwd()\<close> when the process starts\<close>
  realpath :: "string \<Rightarrow> string"
    \<comment> \<open>the canonical name of a directory: what \<open>os.getcwd()\<close> answers after
        \<open>os.chdir\<close> to it\<close>
  chdir_raises :: "string \<Rightarrow> py_exception option"
    \<comment> \<open>\<open>os.chdir(path)\<close>\<close>
  bind_raises :: "string \<times> nat \<Rightarrow> py_exception option"
    \<comment> \<open>\<open>server_bind()\<close> and \<open>server_activate()\<close> in the constructor of
        \<open>HTTPServer\<close>\<close>
  load_cert_chain_raises :: "string \<Rightarrow> string \<Rightarrow> py_exception option"
    \<comment> \<open>\<open>SSLContext.load_cert_chain(certfile, keyfile)\<close>\<close>
  wrap_socket_raises :: "py_exception option"
    \<comment> \<open>\<open>SSLContext.wrap_socket(sock, server_side=True)\<close>\<close>
  stderr_stream :: stream_state
    \<comment> \<open>the state of \<open>sys.stderr\<close>\<close>

section \<open>The state of the process\<close>

datatype socket_state =
    NoSocket
  | Listening "string \<times> nat"
  | Closed

text \<open>
  Every call into the system that the script makes is recorded, in order, when it is
  made (whether or not it then succeeds).
\<close>

datatype event =
    Chdir string
  | Bind "string \<times> nat"
  | LoadCertChain string string
  | WrapSocket
  | Print string

record proc =
  cwd :: string
  sock :: socket_state
    \<comment> \<open>\<open>httpd.socket\<close>\<close>
  cert_chain :: "(string \<times> string) option"
    \<comment> \<open>the certificate and key files loaded into \<open>context\<close>\<close>
  tls_wrapped :: bool
    \<comment> \<open>\<open>httpd.socket\<close> is an \<open>SSLSocket\<close>\<close>
  shutdown_request :: bool
    \<comment> \<open>\<open>httpd.__shutdown_request\<close>\<close>
  stdout :: "string list"
  stderr :: "string list"
  trace :: "event list"

definition initial :: "host \<Rightarrow> proc" where
  "initial h =
     \<lparr> cwd = getcwd h, sock = NoSocket, cert_chain = None, tls_wrapped = False,
       shutdown_request = False, stdout = [], stderr = [], trace = [] \<rparr>"

text \<open>
  A statement of the script either raises, leaving the process in the state it had
  reached (\<open>Inl\<close>), or completes (\<open>Inr\<close>). Statements run in sequence until one raises:
  the script has no \<open>try\<close>.
\<close>

type_synonym 'a result = "(py_exception \<times> proc) + 'a"

definition and_then :: "proc result \<Rightarrow> (proc \<Rightarrow> proc result) \<Rightarrow> proc result" where
  "and_then r f = (case r of Inl e \<Rightarrow> Inl e | Inr p \<Rightarrow> f p)"

definition called :: "event \<Rightarrow> proc \<Rightarrow> proc" where
  "called ev p = p\<lparr>trace := trace p @ [ev]\<rparr>"

section \<open>The statements of \<open>https_server.py\<close>\<close>

text \<open>
  Lines 8 and 9:
  \<^verbatim>\<open>serve_dir = sys.argv[1] if len(sys.argv) > 1 else '.'\<close>,
  \<^verbatim>\<open>serve_dir = os.path.abspath(serve_dir)\<close>.
\<close>

definition serve_dir_arg :: "host \<Rightarrow> string" where
  "serve_dir_arg h = (if length (argv h) > 1 then argv h ! 1 else ''.'')"

definition serve_dir :: "host \<Rightarrow> string" where
  "serve_dir h = abspath (getcwd h) (serve_dir_arg h)"

text \<open>Line 12: \<^verbatim>\<open>os.chdir(serve_dir)\<close>.\<close>

definition os_chdir :: "host \<Rightarrow> string \<Rightarrow> proc \<Rightarrow> proc result" where
  "os_chdir h path p =
     (let p = called (Chdir path) p
      in case chdir_raises h path of
           Some e \<Rightarrow> Inl (e, p)
         | None \<Rightarrow> Inr (p\<lparr>cwd := realpath h path\<rparr>))"

text \<open>Line 14: \<^verbatim>\<open>server_address = ('0.0.0.0', 8443)\<close>.\<close>

definition server_address :: "string \<times> nat" where
  "server_address = (''0.0.0.0'', 8443)"

text \<open>
  Line 15: \<^verbatim>\<open>httpd = http.server.HTTPServer(server_address, ...)\<close>. The constructor
  (\<open>TCPServer.__init__\<close> with \<open>bind_and_activate=True\<close>) creates the socket, binds it
  and listens on it; when that raises it closes the socket and raises again.
\<close>

definition HTTPServer_init :: "host \<Rightarrow> string \<times> nat \<Rightarrow> proc \<Rightarrow> proc result" where
  "HTTPServer_init h addr p =
     (let p = called (Bind addr) p
      in case bind_raises h addr of
           Some e \<Rightarrow> Inl (e, p\<lparr>sock := Closed\<rparr>)
         | None \<Rightarrow> Inr (p\<lparr>sock := Listening addr\<rparr>))"

text \<open>
  Lines 18 to 20:
  \<^verbatim>\<open>script_dir = os.path.dirname(os.path.abspath(__file__))\<close>,
  \<^verbatim>\<open>cert_file = os.path.join(script_dir, 'cert.pem')\<close>,
  \<^verbatim>\<open>key_file = os.path.join(script_dir, 'key.pem')\<close>.
  They run after line 12, so \<open>abspath\<close> reads the working directory the process has
  then.
\<close>

definition script_dir :: "host \<Rightarrow> proc \<Rightarrow> string" where
  "script_dir h p = dirname (abspath (cwd p) (script_file h))"

definition cert_file :: "host \<Rightarrow> proc \<Rightarrow> string" where
  "cert_file h p = posixpath_join (script_dir h p) ''cert.pem''"

definition key_file :: "host \<Rightarrow> proc \<Rightarrow> string" where
  "key_file h p = posixpath_join (script_dir h p) ''key.pem''"

text \<open>
  Lines 22 and 23: \<^verbatim>\<open>context = ssl.SSLContext(ssl.PROTOCOL_TLS_SERVER)\<close>,
  \<^verbatim>\<open>context.load_cert_chain(cert_file, key_file)\<close>.
\<close>

definition load_cert_chain :: "host \<Rightarrow> string \<Rightarrow> string \<Rightarrow> proc \<Rightarrow> proc result" where
  "load_cert_chain h certfile keyfile p =
     (let p = called (LoadCertChain certfile keyfile) p
      in case load_cert_chain_raises h certfile keyfile of
           Some e \<Rightarrow> Inl (e, p)
         | None \<Rightarrow> Inr (p\<lparr>cert_chain := Some (certfile, keyfile)\<rparr>))"

text \<open>Line 24: \<^verbatim>\<open>httpd.socket = context.wrap_socket(httpd.socket, server_side=True)\<close>.\<close>

definition wrap_socket :: "host \<Rightarrow> proc \<Rightarrow> proc result" where
  "wrap_socket h p =
     (let p = called WrapSocket p
      in case wrap_socket_raises h of
           Some e \<Rightarrow> Inl (e, p)
         | None \<Rightarrow> Inr (p\<lparr>tls_wrapped := True\<rparr>))"

text \<open>
  Lines 26 and 27:
  \<^verbatim>\<open>print(f"Serving HTTPS from: {serve_dir}")\<close>,
  \<^verbatim>\<open>print(f"Server running at https://{server_address[0]}:{server_address[1]}/")\<close>.
\<close>

definition print :: "string \<Rightarrow> proc \<Rightarrow> proc result" where
  "print line p = Inr ((called (Print line) p)\<lparr>stdout := stdout p @ [line]\<rparr>)"

definition serving_line :: "host \<Rightarrow> string" where
  "serving_line h = ''Serving HTTPS from: '' @ serve_dir h"

definition running_line :: string where
  "running_line =
     ''Server running at https://'' @ fst server_address @ '':''
       @ str_of_nat (snd server_address) @ ''/''"

text \<open>The script from its first line up to, but not including, \<open>httpd.serve_forever()\<close>.\<close>

definition startup :: "host \<Rightarrow> proc result" where
  "startup h =
     and_then (os_chdir h (serve_dir h) (initial h)) (\<lambda>p.
     and_then (HTTPServer_init h server_address p) (\<lambda>p.
     and_then (load_cert_chain h (cert_file h p) (key_file h p) p) (\<lambda>p.
     and_then (wrap_socket h p) (\<lambda>p.
     and_then (print (serving_line h) p) (\<lambda>p.
     print running_line p)))))"

section \<open>The request handler (\<open>http.server.SimpleHTTPRequestHandler\<close>)\<close>

text \<open>
  The script passes the library's handler class to the server unchanged (line 15).
  What the claims need of it is modelled from \<open>http/server.py\<close> of CPython: how a
  request path becomes a file name (\<open>translate_path\<close>), which file or directory
  \<open>send_head\<close> then reads, and where the handler writes its log.

  The functions of \<open>urllib.parse\<close> that the handler calls are left abstract, and so
  is the file system it reads.
\<close>

record urllib =
  unquote :: "string \<Rightarrow> string"
    \<comment> \<open>\<open>urllib.parse.unquote\<close>: percent-decoding\<close>
  urlsplit_path :: "string \<Rightarrow> string"
    \<comment> \<open>\<open>urllib.parse.urlsplit(url).path\<close>\<close>

record filesystem =
  isdir :: "string \<Rightarrow> bool"
  isfile :: "string \<Rightarrow> bool"
  open_rb :: "string \<Rightarrow> string option"
    \<comment> \<open>\<open>open(path, 'rb')\<close> and the bytes read from it; \<open>None\<close> is \<open>OSError\<close>\<close>
  listdir :: "string \<Rightarrow> string list option"
    \<comment> \<open>\<open>os.listdir(path)\<close>; \<open>None\<close> is \<open>OSError\<close>\<close>

text \<open>\<open>str.isspace\<close> on the code points below 256, and \<open>s.rstrip()\<close>.\<close>

definition isspace :: "char \<Rightarrow> bool" where
  "isspace c = ((of_char c :: nat) \<in> set [9, 10, 11, 12, 13, 28, 29, 30, 31, 32, 133, 160])"

definition rstrip :: "string \<Rightarrow> string" where
  "rstrip s = rev (dropWhile isspace (rev s))"

text \<open>
  One iteration of the loop \<open>for word in words\<close> of \<open>translate_path\<close>: a component
  that is not a simple file or directory name is ignored.
\<close>

definition translate_step :: "string \<Rightarrow> string \<Rightarrow> string" where
  "translate_step path word =
     (if dirname word \<noteq> [] \<or> word = ''.'' \<or> word = ''..'' then path
      else posixpath_join path word)"

definition translate_path :: "urllib \<Rightarrow> string \<Rightarrow> string \<Rightarrow> string" where
  "translate_path u directory path =
     (let path = takeWhile (\<lambda>c. c \<noteq> CHR ''?'') path;
          path = takeWhile (\<lambda>c. c \<noteq> CHR ''#'') path;
          trailing_slash = endswith (rstrip path) ''/'';
          path = unquote u path;
          path = normpath path;
          words = filter (\<lambda>w. w \<noteq> []) (str_split CHR ''/'' path);
          path = foldl translate_step directory words
      in if trailing_slash then path @ ''/'' else path)"

text \<open>
  A request as the handler sees it after \<open>parse_request\<close>: the request line, the
  error \<open>parse_request\<close> answered if it rejected the request, the command and the
  path, and whether the headers make the client's cached copy current
  (\<open>If-Modified-Since\<close> not older than the file, without \<open>If-None-Match\<close>).
  \<open>log_time\<close> is \<open>log_date_time_string()\<close> when the request is logged.
\<close>

record request =
  log_time :: string
  requestline :: string
  parse_error :: "(nat \<times> string) option"
  command :: string
  request_path :: string
    \<comment> \<open>\<open>self.path\<close>\<close>
  cache_fresh :: bool

datatype response =
    Error nat string
      \<comment> \<open>\<open>send_error(code, message)\<close>\<close>
  | MovedPermanently
  | NotModified
  | Listing string "string list"
      \<comment> \<open>200 with the listing of the directory at this path\<close>
  | Contents string string
      \<comment> \<open>200 with the bytes of the file at this path (headers only for HEAD)\<close>

fun status :: "response \<Rightarrow> nat" where
  "status (Error code _) = code"
| "status MovedPermanently = 301"
| "status NotModified = 304"
| "status (Listing _ _) = 200"
| "status (Contents _ _) = 200"

definition list_directory :: "filesystem \<Rightarrow> string \<Rightarrow> response" where
  "list_directory fs path =
     (case listdir fs path of
        None \<Rightarrow> Error 404 ''No permission to list directory''
      | Some names \<Rightarrow> Listing path names)"

text \<open>The end of \<open>send_head\<close>, from \<open>ctype = self.guess_type(path)\<close> on.\<close>

definition send_file :: "filesystem \<Rightarrow> request \<Rightarrow> string \<Rightarrow> response" where
  "send_file fs req path =
     (if endswith path ''/'' then Error 404 ''File not found''
      else case open_rb fs path of
             None \<Rightarrow> Error 404 ''File not found''
           | Some bytes \<Rightarrow> if cache_fresh req then NotModified else Contents path bytes)"

definition send_head :: "urllib \<Rightarrow> filesystem \<Rightarrow> string \<Rightarrow> request \<Rightarrow> response" where
  "send_head u fs directory req =
     (let path = translate_path u directory (request_path req)
      in if isdir fs path then
           (if \<not> endswith (urlsplit_path u (request_path req)) ''/'' then MovedPermanently
            else if isfile fs (posixpath_join path ''index.html'')
              then send_file fs req (posixpath_join path ''index.html'')
            else if isfile fs (posixpath_join path ''index.htm'')
              then send_file fs req (posixpath_join path ''index.htm'')
            else list_directory fs path)
         else send_file fs req path)"

text \<open>
  \<open>handle_one_request\<close>: a request that did not parse has been answered by
  \<open>parse_request\<close>; a command without a \<open>do_\<close> method is answered 501; \<open>do_GET\<close> and
  \<open>do_HEAD\<close> both call \<open>send_head\<close>. The handler is created for the connection, and
  its \<open>directory\<close> is \<open>os.getcwd()\<close> at that moment.
\<close>

definition respond :: "urllib \<Rightarrow> filesystem \<Rightarrow> string \<Rightarrow> request \<Rightarrow> response" where
  "respond u fs directory req =
     (case parse_error req of
        Some (code, message) \<Rightarrow> Error code message
      | None \<Rightarrow>
          if command req \<noteq> ''GET'' \<and> command req \<noteq> ''HEAD''
          then Error 501 (''Unsupported method ('' @ [CHR 0x27] @ command req @ [CHR 0x27] @ '')'')
          else send_head u fs directory req)"

text \<open>
  \<open>log_message\<close> writes one line to \<open>sys.stderr\<close>, with control characters and the
  backslash escaped: \<^verbatim>\<open>sys.stderr.write("%s - - [%s] %s\n" % ...)\<close>. The call is not
  guarded: a write that fails raises \<open>OSError\<close>, and when \<open>sys.stderr\<close> is \<open>None\<close> the
  attribute \<open>write\<close> is missing and the call raises \<open>AttributeError\<close>. Nothing has
  been written then.
\<close>

definition hex_digit :: "nat \<Rightarrow> char" where
  "hex_digit d = ''0123456789abcdef'' ! d"

definition escape_control :: "char \<Rightarrow> string" where
  "escape_control c =
     (let n = (of_char c :: nat)
      in if c = CHR 0x5C then [CHR 0x5C, CHR 0x5C]
         else if n < 32 \<or> (127 \<le> n \<and> n < 160)
           then [CHR 0x5C, CHR ''x'', hex_digit (n div 16), hex_digit (n mod 16)]
         else [c])"

definition log_message ::
  "stream_state \<Rightarrow> string \<Rightarrow> string \<Rightarrow> string \<Rightarrow> proc \<Rightarrow> proc result" where
  "log_message err client time message p =
     (case err of
        Writable \<Rightarrow>
          Inr (p\<lparr>stderr := stderr p @
                 [client @ '' - - ['' @ time @ ''] ''
                    @ concat (map escape_control message)]\<rparr>)
      | Unwritable \<Rightarrow> Inl (OSError, p)
      | Absent \<Rightarrow> Inl (AttributeError, p))"

definition log_request ::
  "stream_state \<Rightarrow> string \<Rightarrow> request \<Rightarrow> nat \<Rightarrow> proc \<Rightarrow> proc result" where
  "log_request err client req code p =
     log_message err client (log_time req)
       ([CHR 0x22] @ requestline req @ [CHR 0x22] @ '' '' @ str_of_nat code @ '' -'') p"

definition log_error ::
  "stream_state \<Rightarrow> string \<Rightarrow> request \<Rightarrow> nat \<Rightarrow> string \<Rightarrow> proc \<Rightarrow> proc result" where
  "log_error err client req code message p =
     log_message err client (log_time req)
       (''code '' @ str_of_nat code @ '', message '' @ message) p"

text \<open>
  Every response goes through \<open>send_response\<close>, which calls \<open>log_request\<close> before
  it puts anything into the response; \<open>send_error\<close> calls \<open>log_error\<close> first. When
  the log call raises, the exception leaves \<open>handle_one_request\<close> and the request is
  neither logged nor answered.
\<close>

definition handle_one_request ::
  "stream_state \<Rightarrow> urllib \<Rightarrow> filesystem \<Rightarrow> string \<Rightarrow> proc \<Rightarrow> request \<Rightarrow> proc result"
  where
  "handle_one_request err u fs client p req =
     (case respond u fs (cwd p) req of
        Error code message \<Rightarrow>
          and_then (log_error err client req code message p)
            (log_request err client req code)
      | r \<Rightarrow> log_request err client req (status r) p)"

text \<open>
  \<open>handle\<close>: the requests of one connection, one after the other; an exception ends
  the handler.
\<close>

fun handle ::
  "stream_state \<Rightarrow> urllib \<Rightarrow> filesystem \<Rightarrow> string \<Rightarrow> proc \<Rightarrow> request list \<Rightarrow> proc result"
  where
  "handle err u fs client p [] = Inr p"
| "handle err u fs client p (req # reqs) =
     (case handle_one_request err u fs client p req of
        Inl x \<Rightarrow> Inl x
      | Inr p \<Rightarrow> handle err u fs client p reqs)"

section \<open>The serve loop (\<open>socketserver.BaseServer.serve_forever\<close>)\<close>

text \<open>
  What one \<open>selector.select(poll_interval)\<close> of the loop finds: nothing, or a
  connection to accept. Accepting can raise \<open>OSError\<close> (a failed TLS handshake is
  one); an accepted connection carries the address of the client, the requests read
  from it, and whether the handler, when it has answered them, ends by raising an
  exception of its own (a connection reset by the client, say).
\<close>

datatype connection =
    AcceptFailed
  | Accepted string "request list" bool

datatype poll = NotReady | Ready connection

text \<open>
  \<open>handle_error\<close> reports the exception of a handler and the loop goes on:
  \<^verbatim>\<open>print('-'*40, file=sys.stderr)\<close>, the client, \<open>traceback.print_exc()\<close>, and the
  dashes again. None of it is guarded. A write that fails raises out of
  \<open>handle_error\<close>; and with \<open>sys.stderr\<close> being \<open>None\<close>, \<open>print(..., file=None)\<close>
  writes to \<open>sys.stdout\<close>, which is where the whole report goes then. Of the
  traceback only the first line is kept, and of the client address only the host.
\<close>

definition error_report :: "string \<Rightarrow> string list" where
  "error_report client =
     [replicate 40 CHR ''-'',
      ''Exception occurred during processing of request from '' @ client,
      ''Traceback (most recent call last):'',
      replicate 40 CHR ''-'']"

definition handle_error :: "stream_state \<Rightarrow> string \<Rightarrow> proc \<Rightarrow> proc result" where
  "handle_error err client p =
     (case err of
        Writable \<Rightarrow> Inr (p\<lparr>stderr := stderr p @ error_report client\<rparr>)
      | Unwritable \<Rightarrow> Inl (OSError, p)
      | Absent \<Rightarrow> Inr (p\<lparr>stdout := stdout p @ error_report client\<rparr>))"

text \<open>
  \<open>_handle_request_noblock\<close>: \<^verbatim>\<open>except OSError: return\<close> around the accept, and
  \<^verbatim>\<open>except Exception: self.handle_error(...)\<close> around the handler. What
  \<open>handle_error\<close> raises is not caught.
\<close>

definition handle_request_noblock ::
  "stream_state \<Rightarrow> urllib \<Rightarrow> filesystem \<Rightarrow> connection \<Rightarrow> proc \<Rightarrow> proc result" where
  "handle_request_noblock err u fs conn p =
     (case conn of
        AcceptFailed \<Rightarrow> Inr p
      | Accepted client reqs raised \<Rightarrow>
          (case handle err u fs client p reqs of
             Inl (e, p) \<Rightarrow> handle_error err client p
           | Inr p \<Rightarrow> if raised then handle_error err client p else Inr p))"

definition service ::
  "stream_state \<Rightarrow> urllib \<Rightarrow> filesystem \<Rightarrow> poll \<Rightarrow> proc \<Rightarrow> proc result" where
  "service err u fs ready p =
     (case ready of
        NotReady \<Rightarrow> Inr p
      | Ready conn \<Rightarrow> handle_request_noblock err u fs conn p)"

text \<open>
  \<^verbatim>\<open>while not self.__shutdown_request: ...\<close>, one \<open>select\<close> and what follows it per
  iteration. Only \<open>shutdown()\<close> sets the flag, and neither the script nor the handler
  calls it. An exception that reaches the loop leaves it: \<open>serve_forever\<close> has a
  \<open>finally\<close> and no \<open>except\<close>. The loop need not end, so it is a partial function:
  \<open>None\<close> is the loop that never returns, \<open>Some (Inr p)\<close> the loop that has returned,
  \<open>Some (Inl (e, p))\<close> the loop that was left by the exception \<open>e\<close>. \<open>serve_forever\<close>
  clears the flag when the loop is left, either way.
\<close>

partial_function (option) serve_loop ::
  "stream_state \<Rightarrow> urllib \<Rightarrow> filesystem \<Rightarrow> proc \<Rightarrow> poll stream \<Rightarrow> proc result option"
  where
  "serve_loop err u fs p polls =
     (if shutdown_request p then Some (Inr p)
      else case service err u fs (shd polls) p of
             Inl x \<Rightarrow> Some (Inl x)
           | Inr p \<Rightarrow> serve_loop err u fs p (stl polls))"

definition serve_forever ::
  "stream_state \<Rightarrow> urllib \<Rightarrow> filesystem \<Rightarrow> proc \<Rightarrow> poll stream \<Rightarrow> proc result option"
  where
  "serve_forever err u fs p polls =
     map_option
       (\<lambda>r. case r of
               Inl (e, p) \<Rightarrow> Inl (e, p\<lparr>shutdown_request := False\<rparr>)
             | Inr p \<Rightarrow> Inr (p\<lparr>shutdown_request := False\<rparr>))
       (serve_loop err u fs p polls)"



section \<open>The whole script\<close>

text \<open>
  An exception that reaches the top level, from the start-up or out of
  \<open>serve_forever\<close>, ends the process with exit status 1; the interpreter prints the
  traceback to \<open>sys.stderr\<close> when it can, and gives up silently when it cannot. Of
  the traceback only the first line is kept. Line 28, \<^verbatim>\<open>httpd.serve_forever()\<close>,
  is the last statement: were it to return, the script would end with exit status 0.
  The result is the exit status and the final state, or \<open>None\<close> when the process does
  not end by itself.
\<close>

definition traceback :: "stream_state \<Rightarrow> py_exception \<Rightarrow> proc \<Rightarrow> proc" where
  "traceback err e p =
     (if err = Writable
      then p\<lparr>stderr := stderr p @ [''Traceback (most recent call last):'']\<rparr>
      else p)"

definition main ::
  "host \<Rightarrow> urllib \<Rightarrow> filesystem \<Rightarrow> poll stream \<Rightarrow> (nat \<times> proc) option" where
  "main h u fs polls =
     (case startup h of
        Inl (e, p) \<Rightarrow> Some (1, traceback (stderr_stream h) e p)
      | Inr p \<Rightarrow>
          (case serve_forever (stderr_stream h) u fs p polls of
             None \<Rightarrow> None
           | Some (Inl (e, p)) \<Rightarrow> Some (1, traceback (stderr_stream h) e p)
           | Some (Inr p) \<Rightarrow> Some (0, p)))"

section \<open>Auxiliary definitions\<close>

text \<open>The process after line 12 has succeeded.\<close>

definition entered :: "host \<Rightarrow> proc" where
  "entered h = (initial h)\<lparr>cwd := realpath h (serve_dir h)\<rparr>"

text \<open>The state a run of the start-up ends in, whether it raised or not.\<close>

definition state_of :: "proc result \<Rightarrow> proc" where
  "state_of r = (case r of Inl (e, p) \<Rightarrow> p | Inr p \<Rightarrow> p)"

text \<open>The directories \<open>os.chdir\<close> was called with, in order.\<close>

fun chdir_calls :: "event list \<Rightarrow> string list" where
  "chdir_calls [] = []"
| "chdir_calls (Chdir d # evs) = d # chdir_calls evs"
| "chdir_calls (_ # evs) = chdir_calls evs"

text \<open>
  \<open>under_root root p\<close>: the path \<open>p\<close> is \<open>root\<close> followed by nothing, or by further
  components none of which is \<open>..\<close>: read component by component, \<open>p\<close> never leaves
  \<open>root\<close>.
\<close>

definition under_root :: "string \<Rightarrow> string \<Rightarrow> bool" where
  "under_root root p =
     (startswith p root \<and>
      (let rest = drop (length root) p
       in (rest = [] \<or> hd rest = CHR ''/'' \<or> last root = CHR ''/'')
          \<and> ''..'' \<notin> set (str_split CHR ''/'' rest)))"

subsection \<open>Example hosts\<close>

text \<open>
  A checkout in \<open>/home/dev/GFX\<close> with the script and the credential pair in
  \<open>scripts/\<close> and a directory \<open>build/\<close> to serve. The script is started from the
  checkout as \<^verbatim>\<open>scripts/https_server.py build\<close>, and the interpreter sets
  \<open>__file__\<close> to the absolute path of the script.
\<close>

definition example_host :: host where
  "example_host =
     \<lparr> argv = [''scripts/https_server.py'', ''build''],
       script_file = ''/home/dev/GFX/scripts/https_server.py'',
       getcwd = ''/home/dev/GFX'',
       realpath = (\<lambda>d. d),
       chdir_raises = (\<lambda>d. if d = ''/home/dev/GFX'' \<or> d = ''/home/dev/GFX/build''
                              then None else Some FileNotFoundError),
       bind_raises = (\<lambda>a. None),
       load_cert_chain_raises = (\<lambda>c k.
          if c = ''/home/dev/GFX/scripts/cert.pem'' \<and> k = ''/home/dev/GFX/scripts/key.pem''
          then None else Some FileNotFoundError),
       wrap_socket_raises = None,
       stderr_stream = Writable \<rparr>"

text \<open>The same, with no credential pair anywhere.\<close>

definition host_without_cert :: host where
  "host_without_cert =
     example_host\<lparr>load_cert_chain_raises := (\<lambda>c k. Some FileNotFoundError)\<rparr>"

text \<open>
  The same as \<open>example_host\<close>, under an interpreter that sets \<open>__file__\<close> to the path
  of the script as it was given on the command line (CPython before 3.9).
\<close>

definition host_relative_file :: host where
  "host_relative_file = example_host\<lparr>script_file := ''scripts/https_server.py''\<rparr>"

text \<open>The same as \<open>example_host\<close>, asked to serve a directory that does not exist.\<close>

definition host_missing_dir :: host where
  "host_missing_dir = example_host\<lparr>argv := [''scripts/https_server.py'', ''nowhere'']\<rparr>"


text \<open>
  A site with one file, \<open>index.html\<close>, in the served directory, and a file
  \<open>/etc/passwd\<close> outside it; request targets without percent escapes, which
  \<open>unquote\<close> leaves as they are.
\<close>

definition example_urllib :: urllib where
  "example_urllib =
     \<lparr> unquote = (\<lambda>s. s),
       urlsplit_path = (\<lambda>s. takeWhile (\<lambda>c. c \<noteq> CHR ''?'' \<and> c \<noteq> CHR ''#'') s) \<rparr>"

definition example_fs :: filesystem where
  "example_fs =
     \<lparr> isdir = (\<lambda>p. p = ''/home/dev/GFX/build'' \<or> p = ''/home/dev/GFX/build/''
                      \<or> p = ''/etc'' \<or> p = ''/etc/''),
       isfile = (\<lambda>p. p = ''/home/dev/GFX/build/index.html'' \<or> p = ''/etc/passwd''),
       open_rb = (\<lambda>p. if p = ''/home/dev/GFX/build/index.html'' then Some ''<html></html>''
                        else if p = ''/etc/passwd'' then Some ''root:x:0:0''
                        else None),
       listdir = (\<lambda>p. if p = ''/home/dev/GFX/build'' \<or> p = ''/home/dev/GFX/build/''
                        then Some [''index.html'']
                        else if p = ''/etc'' \<or> p = ''/etc/'' then Some [''passwd'']
                        else None) \<rparr>"

definition example_request :: "string \<Rightarrow> request" where
  "example_request target =
     \<lparr> log_time = ''04/Nov/2026 12:00:00'',
       requestline = ''GET '' @ target @ '' HTTP/1.1'',
       parse_error = None,
       command = ''GET'',
       request_path = target,
       cache_fresh = False \<rparr>"

section \<open>The start-up, step by step\<close>

lemmas step_defs = os_chdir_def HTTPServer_init_def load_cert_chain_def wrap_socket_def
  print_def called_def and_then_def

lemmas path_defs = abspath_def normpath_def normpath_step_def initial_slashes_def
  posixpath_join_def isabs_def startswith_def endswith_def dirname_def rstrip_char_def

text \<open>
  The five ways the start-up can end: at the first call that raises, or after the
  second \<open>print\<close>.
\<close>

lemma startup_cases:
  "startup h =
    (case chdir_raises h (serve_dir h) of
       Some e \<Rightarrow> Inl (e, (initial h)\<lparr>trace := [Chdir (serve_dir h)]\<rparr>)
     | None \<Rightarrow>
    (case bind_raises h server_address of
       Some e \<Rightarrow> Inl (e, (entered h)\<lparr>sock := Closed,
           trace := [Chdir (serve_dir h), Bind server_address]\<rparr>)
     | None \<Rightarrow>
    (case load_cert_chain_raises h (cert_file h (entered h)) (key_file h (entered h)) of
       Some e \<Rightarrow> Inl (e, (entered h)\<lparr>sock := Listening server_address,
           trace := [Chdir (serve_dir h), Bind server_address,
                     LoadCertChain (cert_file h (entered h)) (key_file h (entered h))]\<rparr>)
     | None \<Rightarrow>
    (case wrap_socket_raises h of
       Some e \<Rightarrow> Inl (e, (entered h)\<lparr>sock := Listening server_address,
           cert_chain := Some (cert_file h (entered h), key_file h (entered h)),
           trace := [Chdir (serve_dir h), Bind server_address,
                     LoadCertChain (cert_file h (entered h)) (key_file h (entered h)),
                     WrapSocket]\<rparr>)
     | None \<Rightarrow>
       Inr ((entered h)\<lparr>sock := Listening server_address,
           cert_chain := Some (cert_file h (entered h), key_file h (entered h)),
           tls_wrapped := True,
           stdout := [serving_line h, running_line],
           trace := [Chdir (serve_dir h), Bind server_address,
                     LoadCertChain (cert_file h (entered h)) (key_file h (entered h)),
                     WrapSocket, Print (serving_line h), Print running_line]\<rparr>)))))"
  by (simp add: startup_def step_defs initial_def entered_def cert_file_def key_file_def
      script_dir_def split: option.splits)

lemma running_line_eq: "running_line = ''Server running at https://0.0.0.0:8443/''"
  by (simp add: running_line_def server_address_def digit_char_def)

subsection \<open>The example hosts, evaluated\<close>

lemma example_host_fields:
  "getcwd example_host = ''/home/dev/GFX''"
  "realpath example_host d = d"
  "chdir_raises example_host ''/home/dev/GFX/build'' = None"
  "bind_raises example_host a = None"
  "load_cert_chain_raises example_host ''/home/dev/GFX/scripts/cert.pem''
     ''/home/dev/GFX/scripts/key.pem'' = None"
  "wrap_socket_raises example_host = None"
  "stderr_stream example_host = Writable"
  by (simp_all add: example_host_def)

lemma serve_dir_example: "serve_dir example_host = ''/home/dev/GFX/build''"
  by (simp add: serve_dir_def serve_dir_arg_def example_host_def path_defs)

lemma cert_file_example: "cert_file example_host p = ''/home/dev/GFX/scripts/cert.pem''"
  by (simp add: cert_file_def script_dir_def example_host_def path_defs)

lemma key_file_example: "key_file example_host p = ''/home/dev/GFX/scripts/key.pem''"
  by (simp add: key_file_def script_dir_def example_host_def path_defs)

lemma startup_example:
  "startup example_host =
     Inr \<lparr> cwd = ''/home/dev/GFX/build'', sock = Listening (''0.0.0.0'', 8443),
           cert_chain = Some (''/home/dev/GFX/scripts/cert.pem'',
                              ''/home/dev/GFX/scripts/key.pem''),
           tls_wrapped = True, shutdown_request = False,
           stdout = [''Serving HTTPS from: /home/dev/GFX/build'',
                     ''Server running at https://0.0.0.0:8443/''],
           stderr = [],
           trace = [Chdir ''/home/dev/GFX/build'', Bind (''0.0.0.0'', 8443),
                    LoadCertChain ''/home/dev/GFX/scripts/cert.pem''
                      ''/home/dev/GFX/scripts/key.pem'',
                    WrapSocket, Print ''Serving HTTPS from: /home/dev/GFX/build'',
                    Print ''Server running at https://0.0.0.0:8443/''] \<rparr>"
  by (simp add: startup_cases serve_dir_example cert_file_example key_file_example
      example_host_fields entered_def initial_def server_address_def
      running_line_eq serving_line_def)

lemma host_without_cert_fields:
  "serve_dir host_without_cert = ''/home/dev/GFX/build''"
  "cert_file host_without_cert p = ''/home/dev/GFX/scripts/cert.pem''"
  "key_file host_without_cert p = ''/home/dev/GFX/scripts/key.pem''"
  "getcwd host_without_cert = ''/home/dev/GFX''"
  "realpath host_without_cert d = d"
  "chdir_raises host_without_cert ''/home/dev/GFX/build'' = None"
  "bind_raises host_without_cert a = None"
  "load_cert_chain_raises host_without_cert c k = Some FileNotFoundError"
  "stderr_stream host_without_cert = Writable"
  by (simp_all add: host_without_cert_def example_host_def serve_dir_def serve_dir_arg_def
      cert_file_def key_file_def script_dir_def path_defs)

lemma host_missing_dir_fields:
  "serve_dir host_missing_dir = ''/home/dev/GFX/nowhere''"
  "getcwd host_missing_dir = ''/home/dev/GFX''"
  "chdir_raises host_missing_dir ''/home/dev/GFX/nowhere'' = Some FileNotFoundError"
  "stderr_stream host_missing_dir = Writable"
  by (simp_all add: host_missing_dir_def example_host_def serve_dir_def serve_dir_arg_def
      path_defs)

lemma host_relative_file_fields:
  "serve_dir host_relative_file = ''/home/dev/GFX/build''"
  "cwd p = ''/home/dev/GFX/build'' \<Longrightarrow>
     cert_file host_relative_file p = ''/home/dev/GFX/build/scripts/cert.pem''"
  "cwd p = ''/home/dev/GFX/build'' \<Longrightarrow>
     key_file host_relative_file p = ''/home/dev/GFX/build/scripts/key.pem''"
  "getcwd host_relative_file = ''/home/dev/GFX''"
  "realpath host_relative_file d = d"
  "chdir_raises host_relative_file ''/home/dev/GFX/build'' = None"
  "bind_raises host_relative_file a = None"
  "load_cert_chain_raises host_relative_file ''/home/dev/GFX/build/scripts/cert.pem''
     ''/home/dev/GFX/build/scripts/key.pem'' = Some FileNotFoundError"
  by (simp_all add: host_relative_file_def example_host_def serve_dir_def serve_dir_arg_def
      cert_file_def key_file_def script_dir_def path_defs)

section \<open>Facts about the path functions\<close>

lemma str_split_nonempty: "str_split c s \<noteq> []"
  by (induction s) (auto split: list.splits)

lemma str_split_append_sep: "str_split c (a @ c # b) = str_split c a @ str_split c b"
  by (induction a) (auto simp add: str_split_nonempty split: list.splits)

lemma str_split_no_sep: "c \<notin> set w \<Longrightarrow> str_split c w = [w]"
  by (induction w) (auto split: list.splits)

lemma endswith_sepE: "endswith c ''/'' \<Longrightarrow> \<exists>c0. c = c0 @ ''/''"
  unfolding endswith_def
  by (metis append_take_drop_id)

lemma normpath_step_ignored [simp]:
  "normpath_step ini comps [] = comps" "normpath_step ini comps ''.'' = comps"
  by (simp_all add: normpath_step_def)

text \<open>An absolute path stays absolute, and \<open>abspath\<close> makes every path absolute.\<close>

lemma normpath_isabs: "isabs p \<Longrightarrow> isabs (normpath p)"
  by (cases p) (auto simp add: isabs_def startswith_def normpath_def initial_slashes_def Let_def)

lemma abspath_isabs: "isabs c \<Longrightarrow> isabs (abspath c d)"
  unfolding abspath_def
  by (rule normpath_isabs) (cases c; auto simp add: isabs_def startswith_def posixpath_join_def)

text \<open>Joining \<open>'.'\<close> to a directory names the directory itself.\<close>

lemma initial_slashes_append_sep:
  "c \<noteq> [] \<Longrightarrow> \<not> endswith c ''/'' \<Longrightarrow> initial_slashes (c @ ''/.'') = initial_slashes c"
  apply (cases c; simp add: initial_slashes_def startswith_def endswith_def)
  subgoal for x xs
    apply (cases xs; simp)
    subgoal for y ys
      by (cases ys; auto)
    done
  done

lemma initial_slashes_append_dot:
  "endswith c ''/'' \<Longrightarrow> initial_slashes (c @ ''.'') = initial_slashes c"
  apply (cases c; simp add: initial_slashes_def startswith_def endswith_def)
  subgoal for x xs
    apply (cases xs; simp)
    subgoal for y ys
      by (cases ys; auto)
    done
  done

lemma normpath_join_dot: "normpath (posixpath_join c ''.'') = normpath c"
proof (cases "c = []")
  case True
  then show ?thesis
    by (simp add: posixpath_join_def startswith_def normpath_def initial_slashes_def)
next
  case False
  show ?thesis
  proof (cases "endswith c ''/''")
    case True
    then obtain c0 where c: "c = c0 @ ''/''" using endswith_sepE by blast
    have j: "posixpath_join c ''.'' = c @ ''.''"
      using True by (simp add: posixpath_join_def startswith_def)
    have s1: "str_split CHR ''/'' (c @ ''.'') = str_split CHR ''/'' c0 @ [''.'']"
      using str_split_append_sep [of "CHR ''/''" c0 "''.''"] by (simp add: c)
    have s2: "str_split CHR ''/'' c = str_split CHR ''/'' c0 @ [[]]"
      using str_split_append_sep [of "CHR ''/''" c0 "[]"] by (simp add: c)
    show ?thesis
      using False by (simp add: j normpath_def initial_slashes_append_dot [OF True] s1 s2)
  next
    case nosep: False
    have j: "posixpath_join c ''.'' = c @ ''/.''"
      using nosep \<open>c \<noteq> []\<close> by (simp add: posixpath_join_def startswith_def)
    have s1: "str_split CHR ''/'' (c @ ''/.'') = str_split CHR ''/'' c @ [''.'']"
      using str_split_append_sep [of "CHR ''/''" c "''.''"] by simp
    show ?thesis
      using \<open>c \<noteq> []\<close>
      by (simp add: j normpath_def initial_slashes_append_sep [OF \<open>c \<noteq> []\<close> nosep] s1)
  qed
qed

section \<open>C1: the credential pair is loaded after the port is bound\<close>




section \<open>C2: where the credential pair is looked for\<close>

text \<open>
  When \<open>__file__\<close> is an absolute path, the credential files are \<open>cert.pem\<close> and
  \<open>key.pem\<close> in the directory of the script, whatever the serve directory and the
  working directory are.
\<close>

lemma script_dir_absolute_file:
  "isabs (script_file h) \<Longrightarrow> script_dir h p = dirname (normpath (script_file h))"
  by (simp add: script_dir_def abspath_def)

lemma credentials_absolute_file:
  "isabs (script_file h) \<Longrightarrow>
     cert_file h p = posixpath_join (dirname (normpath (script_file h))) ''cert.pem''
   \<and> key_file h p = posixpath_join (dirname (normpath (script_file h))) ''key.pem''"
  by (simp add: cert_file_def key_file_def script_dir_absolute_file)

text \<open>
  Claim C2 says that for every invocation the certificate and key are read from
  \<open>cert.pem\<close> and \<open>key.pem\<close> in the directory containing the script, independently
  of the serve directory argument and of the caller's working directory; the comment
  on line 17 says the same (\<open>always from the script's directory\<close>). Line 18 makes
  \<open>__file__\<close> absolute after line 12 has changed the working directory. On
  \<open>host_relative_file\<close>, where \<open>__file__\<close> is \<open>scripts/https_server.py\<close>, the script
  in \<open>/home/dev/GFX/scripts\<close> asks for the credential pair in
  \<open>/home/dev/GFX/build/scripts\<close>, below the serve directory, and fails although the
  pair is next to the script.
\<close>

theorem relative_file_credentials_follow_serve_dir:
  "startup host_relative_file =
     Inl (FileNotFoundError,
          \<lparr> cwd = ''/home/dev/GFX/build'', sock = Listening (''0.0.0.0'', 8443),
            cert_chain = None, tls_wrapped = False, shutdown_request = False,
            stdout = [], stderr = [],
            trace = [Chdir ''/home/dev/GFX/build'', Bind (''0.0.0.0'', 8443),
                     LoadCertChain ''/home/dev/GFX/build/scripts/cert.pem''
                       ''/home/dev/GFX/build/scripts/key.pem''] \<rparr>)"
  by (simp add: startup_cases host_relative_file_fields entered_def initial_def
      server_address_def)

section \<open>C3: a serve directory that cannot be entered\<close>

text \<open>
  Claim C3: when the resolved serve directory does not exist or is not accessible,
  \<open>os.chdir\<close> raises and nothing catches the exception. The process ends with exit
  status 1 and the traceback on the error stream (when that stream can be written
  to: the interpreter does not insist); \<open>os.chdir\<close> is the only call that
  was made (no retry, no other directory), no socket exists, nothing was printed,
  and the result does not depend on what clients do: no request is served.
\<close>

theorem bad_serve_dir_is_fatal:
  assumes "chdir_raises h (serve_dir h) = Some e"
  shows "main h u fs polls =
    Some (1, \<lparr> cwd = getcwd h, sock = NoSocket, cert_chain = None, tls_wrapped = False,
                shutdown_request = False, stdout = [],
                stderr = (if stderr_stream h = Writable
                          then [''Traceback (most recent call last):''] else []),
                trace = [Chdir (serve_dir h)] \<rparr>)"
  using assms by (simp add: main_def startup_cases traceback_def initial_def)

theorem bad_serve_dir_is_fatal_witness:
  "main host_missing_dir example_urllib example_fs (sconst NotReady) =
    Some (1, \<lparr> cwd = ''/home/dev/GFX'', sock = NoSocket, cert_chain = None,
                tls_wrapped = False, shutdown_request = False, stdout = [],
                stderr = [''Traceback (most recent call last):''],
                trace = [Chdir ''/home/dev/GFX/nowhere''] \<rparr>)"
  using bad_serve_dir_is_fatal
    [of host_missing_dir FileNotFoundError example_urllib example_fs "sconst NotReady"]
  by (simp add: host_missing_dir_fields)

section \<open>C4: the serve root\<close>

text \<open>
  Claim C4: the serve root is the first positional argument when there is one and
  \<open>'.'\<close> otherwise, made absolute: an absolute argument is normalised, a relative
  one is joined to the working directory of the invoker and normalised. Without an
  argument that is the working directory itself. The result is absolute (the working
  directory the system reports is), it is the one directory \<open>os.chdir\<close> is called
  with, and it is the directory the first status line shows.
\<close>

theorem serve_root_resolution:
  "serve_dir h =
     normpath (let d = (case argv h of _ # d # _ \<Rightarrow> d | _ \<Rightarrow> ''.'')
               in if startswith d ''/'' then d else posixpath_join (getcwd h) d)
   \<and> (length (argv h) \<le> 1 \<longrightarrow> serve_dir h = normpath (getcwd h))
   \<and> (isabs (getcwd h) \<longrightarrow> isabs (serve_dir h))
   \<and> chdir_calls (trace (state_of (startup h))) = [serve_dir h]
   \<and> (\<forall>p. startup h = Inr p \<longrightarrow>
         hd (stdout p) = ''Serving HTTPS from: '' @ serve_dir h)"
proof -
  have a: "serve_dir_arg h = (case argv h of _ # d # _ \<Rightarrow> d | _ \<Rightarrow> ''.'')"
    by (auto simp add: serve_dir_arg_def split: list.splits)
  have 1: "serve_dir h =
     normpath (let d = (case argv h of _ # d # _ \<Rightarrow> d | _ \<Rightarrow> ''.'')
               in if startswith d ''/'' then d else posixpath_join (getcwd h) d)"
    by (simp add: serve_dir_def abspath_def isabs_def a [symmetric] Let_def)
  have 2: "length (argv h) \<le> 1 \<longrightarrow> serve_dir h = normpath (getcwd h)"
    by (simp add: serve_dir_def serve_dir_arg_def abspath_def isabs_def startswith_def
        normpath_join_dot)
  have 3: "isabs (getcwd h) \<longrightarrow> isabs (serve_dir h)"
    by (simp add: serve_dir_def abspath_isabs)
  have 4: "chdir_calls (trace (state_of (startup h))) = [serve_dir h]"
    by (simp add: startup_cases state_of_def split: option.splits)
  have 5: "\<forall>p. startup h = Inr p \<longrightarrow> hd (stdout p) = ''Serving HTTPS from: '' @ serve_dir h"
    by (auto simp add: startup_cases serving_line_def split: option.splits)
  from 1 2 3 4 5 show ?thesis by blast
qed

theorem serve_root_resolution_witness:
  "isabs (getcwd example_host)
   \<and> serve_dir example_host = ''/home/dev/GFX/build''
   \<and> isabs (serve_dir example_host)
   \<and> startup example_host = Inr (state_of (startup example_host))
   \<and> hd (stdout (state_of (startup example_host))) = ''Serving HTTPS from: /home/dev/GFX/build''
   \<and> length (argv (example_host\<lparr>argv := [''scripts/https_server.py'']\<rparr>)) \<le> 1
   \<and> serve_dir (example_host\<lparr>argv := [''scripts/https_server.py'']\<rparr>) = ''/home/dev/GFX''"
proof -
  let ?h1 = "example_host\<lparr>argv := [''scripts/https_server.py'']\<rparr>"
  have g: "isabs (getcwd example_host)"
    by (simp add: example_host_fields isabs_def startswith_def)
  have s: "startup example_host = Inr (state_of (startup example_host))"
    by (simp add: startup_example state_of_def)
  have l: "length (argv ?h1) \<le> 1"
    by simp
  have n: "normpath (getcwd ?h1) = ''/home/dev/GFX''"
    by (simp add: example_host_fields path_defs)
  have a: "isabs (serve_dir example_host)"
    using serve_root_resolution [of example_host] g by blast
  have p: "hd (stdout (state_of (startup example_host)))
             = ''Serving HTTPS from: '' @ serve_dir example_host"
    using serve_root_resolution [of example_host] s by blast
  have d: "serve_dir ?h1 = normpath (getcwd ?h1)"
    using serve_root_resolution [of ?h1] l by blast
  show ?thesis
    using g s l a p d n by (simp add: serve_dir_example)
qed

section \<open>C5: the listening address\<close>

text \<open>
  Claim C5: whatever the arguments, the files and the answers of the system are, the
  only address the script ever binds is \<open>0.0.0.0\<close>, port 8443: a start-up that
  completes is listening there, every \<open>Bind\<close> that was called was called with that
  address, and a socket that is listening when the start-up stops is listening there.
\<close>

theorem listening_address_fixed:
  "(\<forall>p. startup h = Inr p \<longrightarrow> sock p = Listening (''0.0.0.0'', 8443))
   \<and> (\<forall>a. Bind a \<in> set (trace (state_of (startup h))) \<longrightarrow> a = (''0.0.0.0'', 8443))
   \<and> (\<forall>a. sock (state_of (startup h)) = Listening a \<longrightarrow> a = (''0.0.0.0'', 8443))"
  by (auto simp add: startup_cases state_of_def entered_def initial_def server_address_def
      split: option.splits)

theorem listening_address_fixed_witness:
  "startup example_host = Inr (state_of (startup example_host))
   \<and> sock (state_of (startup example_host)) = Listening (''0.0.0.0'', 8443)
   \<and> Bind (''0.0.0.0'', 8443) \<in> set (trace (state_of (startup example_host)))"
  using listening_address_fixed [of example_host]
  by (simp add: startup_example state_of_def)

section \<open>C9: the status lines come last\<close>

text \<open>
  Claim C9: the two status lines are printed only after the directory change, the
  bind, the load of the credential pair and the TLS wrap have all succeeded. A
  start-up that completes has done the six calls in that order and is in the serve
  directory, listening, with the credential pair loaded and the socket wrapped; a
  start-up that raises has printed nothing; so a run with any output completed; and
  the start-up raises exactly when one of the four calls does.
\<close>

theorem status_lines_after_initialisation:
  "(\<forall>p. startup h = Inr p \<longrightarrow>
       cwd p = realpath h (serve_dir h)
     \<and> sock p = Listening (''0.0.0.0'', 8443)
     \<and> cert_chain p = Some (cert_file h (entered h), key_file h (entered h))
     \<and> tls_wrapped p
     \<and> stdout p = [serving_line h, running_line]
     \<and> trace p = [Chdir (serve_dir h), Bind (''0.0.0.0'', 8443),
                  LoadCertChain (cert_file h (entered h)) (key_file h (entered h)),
                  WrapSocket, Print (serving_line h), Print running_line])
   \<and> (\<forall>e p. startup h = Inl (e, p) \<longrightarrow> stdout p = [] \<and> (\<forall>l. Print l \<notin> set (trace p)))
   \<and> (stdout (state_of (startup h)) \<noteq> [] \<longrightarrow> (\<exists>p. startup h = Inr p))
   \<and> ((\<exists>e p. startup h = Inl (e, p)) \<longleftrightarrow>
        (chdir_raises h (serve_dir h) \<noteq> None
         \<or> bind_raises h server_address \<noteq> None
         \<or> load_cert_chain_raises h (cert_file h (entered h)) (key_file h (entered h)) \<noteq> None
         \<or> wrap_socket_raises h \<noteq> None))"
  by (auto simp add: startup_cases state_of_def entered_def initial_def server_address_def
      split: option.splits)

theorem status_lines_after_initialisation_witness:
  "stdout (state_of (startup example_host)) =
      [''Serving HTTPS from: /home/dev/GFX/build'', ''Server running at https://0.0.0.0:8443/'']
   \<and> tls_wrapped (state_of (startup example_host))
   \<and> sock (state_of (startup example_host)) = Listening (''0.0.0.0'', 8443)
   \<and> load_cert_chain_raises host_without_cert
         (cert_file host_without_cert (entered host_without_cert))
         (key_file host_without_cert (entered host_without_cert)) \<noteq> None
   \<and> stdout (state_of (startup host_without_cert)) = []"
  using status_lines_after_initialisation [of example_host]
    status_lines_after_initialisation [of host_without_cert]
  by (auto simp add: state_of_def startup_example host_without_cert_fields split: sum.splits)

section \<open>C10: further arguments\<close>

lemma serve_dir_arg_take:
  "serve_dir_arg (h\<lparr>argv := take 2 a\<rparr>) = serve_dir_arg (h\<lparr>argv := a\<rparr>)"
  by (simp add: serve_dir_arg_def)

lemma startup_argv_take: "startup (h\<lparr>argv := a\<rparr>) = startup (h\<lparr>argv := take 2 a\<rparr>)"
  using serve_dir_arg_take [where h=h and a=a]
  by (simp add: startup_cases entered_def initial_def serve_dir_def serving_line_def
      cert_file_def key_file_def script_dir_def split: option.splits)

text \<open>
  Claim C10: two invocations whose argument vectors agree on the script name and the
  first argument behave alike: the start-up makes the same calls with the same
  directory, credential paths and address, prints the same, and raises the same
  exception or none; the whole run is the same. In particular a run with further
  arguments is the run without them, so they cause no error.
\<close>

theorem extra_arguments_ignored:
  assumes "take 2 a = take 2 b"
  shows "startup (h\<lparr>argv := a\<rparr>) = startup (h\<lparr>argv := b\<rparr>)
       \<and> main (h\<lparr>argv := a\<rparr>) u fs polls = main (h\<lparr>argv := b\<rparr>) u fs polls"
proof -
  have "startup (h\<lparr>argv := a\<rparr>) = startup (h\<lparr>argv := b\<rparr>)"
    using assms startup_argv_take [where h=h and a=a] startup_argv_take [where h=h and a=b]
    by simp
  then show ?thesis
    by (simp add: main_def split: sum.splits prod.splits option.splits)
qed

theorem extra_arguments_ignored_witness:
  "take 2 [''scripts/https_server.py'', ''build'', ''--port'', ''9000'']
     = take 2 [''scripts/https_server.py'', ''build'']
   \<and> startup (example_host\<lparr>argv := [''scripts/https_server.py'', ''build'', ''--port'', ''9000'']\<rparr>)
     = startup (example_host\<lparr>argv := [''scripts/https_server.py'', ''build'']\<rparr>)"
  using extra_arguments_ignored
    [where a = "[''scripts/https_server.py'', ''build'', ''--port'', ''9000'']"
       and b = "[''scripts/https_server.py'', ''build'']" and h = example_host]
  by simp

section \<open>C6: request paths stay below the serve root\<close>

lemma under_root_iff:
  "under_root root p \<longleftrightarrow>
     (\<exists>rest. p = root @ rest
        \<and> (rest = [] \<or> hd rest = CHR ''/'' \<or> last root = CHR ''/'')
        \<and> ''..'' \<notin> set (str_split CHR ''/'' rest))"
proof
  assume u: "under_root root p"
  then have "p = root @ drop (length root) p"
    by (metis append_take_drop_id startswith_def under_root_def)
  with u show "\<exists>rest. p = root @ rest
        \<and> (rest = [] \<or> hd rest = CHR ''/'' \<or> last root = CHR ''/'')
        \<and> ''..'' \<notin> set (str_split CHR ''/'' rest)"
    unfolding under_root_def Let_def by blast
next
  assume "\<exists>rest. p = root @ rest
        \<and> (rest = [] \<or> hd rest = CHR ''/'' \<or> last root = CHR ''/'')
        \<and> ''..'' \<notin> set (str_split CHR ''/'' rest)"
  then show "under_root root p"
    by (auto simp add: under_root_def startswith_def)
qed

lemma str_split_words_no_sep: "w \<in> set (str_split c s) \<Longrightarrow> c \<notin> set w"
proof (induction s arbitrary: w)
  case Nil
  then show ?case by simp
next
  case (Cons x xs)
  then show ?case
    by (cases "str_split c xs") (auto split: if_splits)
qed

lemma under_root_refl: "under_root root root"
  by (simp add: under_root_iff)

lemma endswith_sep_iff: "endswith p ''/'' \<longleftrightarrow> (p \<noteq> [] \<and> last p = CHR ''/'')"
proof
  assume "endswith p ''/''"
  then obtain c0 where "p = c0 @ ''/''" using endswith_sepE by blast
  then show "p \<noteq> [] \<and> last p = CHR ''/''" by simp
next
  assume a: "p \<noteq> [] \<and> last p = CHR ''/''"
  then have "p = butlast p @ ''/''"
    by (metis append_butlast_last_id)
  then obtain b where "p = b @ ''/''" ..
  then show "endswith p ''/''" by (simp add: endswith_def)
qed

lemma under_root_join:
  assumes u: "under_root root p" and r: "root \<noteq> []"
    and w: "CHR ''/'' \<notin> set w" "w \<noteq> []" "w \<noteq> ''..''"
  shows "under_root root (posixpath_join p w)"
proof -
  from u obtain rest where p: "p = root @ rest"
    and h: "rest = [] \<or> hd rest = CHR ''/'' \<or> last root = CHR ''/''"
    and d: "''..'' \<notin> set (str_split CHR ''/'' rest)"
    unfolding under_root_iff by blast
  have nw: "\<not> startswith w ''/''"
    using w by (cases w) (auto simp add: startswith_def)
  have sw: "str_split CHR ''/'' w = [w]"
    using w by (simp add: str_split_no_sep)
  have pne: "p \<noteq> []" using p r by simp
  show ?thesis
  proof (cases "endswith p ''/''")
    case True
    then have j: "posixpath_join p w = root @ (rest @ w)"
      using nw p by (simp add: posixpath_join_def)
    show ?thesis
    proof (cases "rest = []")
      case True
      with \<open>endswith p ''/''\<close> p have "last root = CHR ''/''"
        by (simp add: endswith_sep_iff)
      then show ?thesis
        unfolding under_root_iff j using True sw w by auto
    next
      case False
      with \<open>endswith p ''/''\<close> p have "last rest = CHR ''/''"
        by (simp add: endswith_sep_iff)
      with False obtain r0 where r0: "rest = r0 @ ''/''"
        by (metis append_butlast_last_id)
      have s1: "str_split CHR ''/'' (rest @ w) = str_split CHR ''/'' r0 @ [w]"
        using str_split_append_sep [of "CHR ''/''" r0 w] sw by (simp add: r0)
      have s2: "str_split CHR ''/'' rest = str_split CHR ''/'' r0 @ [[]]"
        using str_split_append_sep [of "CHR ''/''" r0 "[]"] by (simp add: r0)
      have "hd (rest @ w) = hd rest" using False by simp
      then show ?thesis
        unfolding under_root_iff j using h d False s1 s2 w
        by (intro exI [of _ "rest @ w"]) auto
    qed
  next
    case False
    then have j: "posixpath_join p w = root @ (rest @ CHR ''/'' # w)"
      using nw p pne by (simp add: posixpath_join_def)
    have s1: "str_split CHR ''/'' (rest @ CHR ''/'' # w) = str_split CHR ''/'' rest @ [w]"
      using str_split_append_sep [of "CHR ''/''" rest w] sw by simp
    have "hd (rest @ CHR ''/'' # w) = (if rest = [] then CHR ''/'' else hd rest)"
      by (cases rest) auto
    then show ?thesis
      unfolding under_root_iff j using h d s1 w
      by (intro exI [of _ "rest @ CHR ''/'' # w"]) auto
  qed
qed


lemma under_root_translate_step:
  assumes "under_root root p" "root \<noteq> []" "CHR ''/'' \<notin> set w" "w \<noteq> []"
  shows "under_root root (translate_step p w)"
  using assms by (simp add: translate_step_def under_root_join)

lemma under_root_translate_words:
  assumes "root \<noteq> []" "\<forall>w \<in> set ws. CHR ''/'' \<notin> set w \<and> w \<noteq> []"
  shows "under_root root p \<Longrightarrow> under_root root (foldl translate_step p ws)"
  using assms(2)
proof (induction ws arbitrary: p)
  case Nil
  then show ?case by simp
next
  case (Cons w ws)
  then show ?case
    using under_root_translate_step [OF _ assms(1), of p w] by simp
qed

lemma under_root_trailing_slash:
  assumes "under_root root p"
  shows "under_root root (p @ ''/'')"
proof -
  from assms obtain rest where p: "p = root @ rest"
    and h: "rest = [] \<or> hd rest = CHR ''/'' \<or> last root = CHR ''/''"
    and d: "''..'' \<notin> set (str_split CHR ''/'' rest)"
    unfolding under_root_iff by blast
  have s1: "str_split CHR ''/'' (rest @ ''/'') = str_split CHR ''/'' rest @ [[]]"
    using str_split_append_sep [of "CHR ''/''" rest "[]"] by simp
  have "hd (rest @ ''/'') = (if rest = [] then CHR ''/'' else hd rest)"
    by (cases rest) auto
  then show ?thesis
    unfolding under_root_iff using p h d s1
    by (intro exI [of _ "rest @ ''/''"]) auto
qed

lemma under_root_translate_path:
  assumes "directory \<noteq> []"
  shows "under_root directory (translate_path u directory target)"
proof -
  have "\<forall>w \<in> set (filter (\<lambda>w. w \<noteq> []) (str_split CHR ''/'' s)). CHR ''/'' \<notin> set w \<and> w \<noteq> []"
    for s
    using str_split_words_no_sep by auto
  then have "under_root directory
      (foldl translate_step directory (filter (\<lambda>w. w \<noteq> []) (str_split CHR ''/'' s)))" for s
    using under_root_translate_words [OF assms _ under_root_refl] by blast
  then show ?thesis
    by (simp add: translate_path_def Let_def under_root_trailing_slash)
qed

lemma translate_path_nonempty:
  "directory \<noteq> [] \<Longrightarrow> translate_path u directory target \<noteq> []"
  using under_root_translate_path [of directory u target]
  by (auto simp add: under_root_def startswith_def)

lemma send_file_reads:
  "send_file fs req p = Contents q bytes \<Longrightarrow> q = p \<and> open_rb fs p = Some bytes"
  "send_file fs req p \<noteq> Listing q names"
  by (auto simp add: send_file_def split: if_splits option.splits)

text \<open>
  Claim C6: whatever the request target is, with traversal sequences or without, and
  however it is percent-decoded, the file name \<open>translate_path\<close> makes of it is the
  handler's directory followed by components none of which is \<open>..\<close>; the only file
  whose bytes a response carries is the file at such a name, and the only directory a
  response lists is at such a name. The handler's directory is the working directory
  of the process, which is the serve root. (\<open>translate_path\<close> drops the components
  \<open>..\<close> rather than refusing the request; what the names below the root are linked
  to in the file system is not part of the model.)
\<close>

theorem no_traversal_above_serve_root:
  assumes "directory \<noteq> []"
  shows "under_root directory (translate_path u directory target)
     \<and> (\<forall>p bytes. respond u fs directory req = Contents p bytes \<longrightarrow>
            under_root directory p \<and> open_rb fs p = Some bytes)
     \<and> (\<forall>p names. respond u fs directory req = Listing p names \<longrightarrow>
            under_root directory p \<and> listdir fs p = Some names)"
proof -
  let ?t = "translate_path u directory (request_path req)"
  have t: "under_root directory ?t"
    by (rule under_root_translate_path [OF assms])
  have i1: "under_root directory (posixpath_join ?t ''index.html'')"
    by (rule under_root_join [OF t assms]) simp_all
  have i2: "under_root directory (posixpath_join ?t ''index.htm'')"
    by (rule under_root_join [OF t assms]) simp_all
  have c: "under_root directory p \<and> open_rb fs p = Some bytes"
    if "send_head u fs directory req = Contents p bytes" for p bytes
    using that t i1 i2
    by (auto simp add: send_head_def Let_def list_directory_def
        split: if_splits option.splits dest: send_file_reads(1))
  have l: "under_root directory p \<and> listdir fs p = Some names"
    if "send_head u fs directory req = Listing p names" for p names
    using that t send_file_reads(2)
    by (auto simp add: send_head_def Let_def list_directory_def
        split: if_splits option.splits)
  have r: "respond u fs directory req = Contents p bytes \<Longrightarrow>
             send_head u fs directory req = Contents p bytes"
          "respond u fs directory req = Listing p names \<Longrightarrow>
             send_head u fs directory req = Listing p names" for p bytes names
    by (auto simp add: respond_def split: option.splits if_splits)
  show ?thesis
    using under_root_translate_path [OF assms, of u target] c l r by blast
qed


lemmas handler_defs = translate_path_def translate_step_def rstrip_def isspace_def
  respond_def send_head_def send_file_def list_directory_def

lemma translate_traversal_example:
  "translate_path example_urllib ''/home/dev/GFX/build'' ''/../../etc/passwd''
     = ''/home/dev/GFX/build/etc/passwd''"
  by (simp add: handler_defs example_urllib_def path_defs)

lemma respond_traversal_example:
  "respond example_urllib example_fs ''/home/dev/GFX/build'' (example_request ''/../../etc/passwd'')
     = Error 404 ''File not found''"
  by (simp add: handler_defs example_urllib_def example_fs_def example_request_def path_defs)

lemma respond_index_example:
  "respond example_urllib example_fs ''/home/dev/GFX/build'' (example_request ''/index.html'')
     = Contents ''/home/dev/GFX/build/index.html'' ''<html></html>''"
  by (simp add: handler_defs example_urllib_def example_fs_def example_request_def path_defs)

theorem no_traversal_above_serve_root_witness:
  "under_root ''/home/dev/GFX/build''
      (translate_path example_urllib ''/home/dev/GFX/build'' ''/../../etc/passwd'')
   \<and> translate_path example_urllib ''/home/dev/GFX/build'' ''/../../etc/passwd''
       = ''/home/dev/GFX/build/etc/passwd''
   \<and> respond example_urllib example_fs ''/home/dev/GFX/build''
        (example_request ''/../../etc/passwd'') = Error 404 ''File not found''
   \<and> respond example_urllib example_fs ''/home/dev/GFX/build''
        (example_request ''/index.html'')
       = Contents ''/home/dev/GFX/build/index.html'' ''<html></html>''
   \<and> under_root ''/home/dev/GFX/build'' ''/home/dev/GFX/build/index.html''
   \<and> open_rb example_fs ''/home/dev/GFX/build/index.html'' = Some ''<html></html>''"
proof -
  have ne: "''/home/dev/GFX/build'' \<noteq> []" by simp
  note t = no_traversal_above_serve_root [OF ne, of example_urllib "''/../../etc/passwd''" example_fs
      "example_request ''/index.html''"]
  from t have 1: "under_root ''/home/dev/GFX/build''
      (translate_path example_urllib ''/home/dev/GFX/build'' ''/../../etc/passwd'')"
    by blast
  from t respond_index_example
  have 2: "under_root ''/home/dev/GFX/build'' ''/home/dev/GFX/build/index.html''
     \<and> open_rb example_fs ''/home/dev/GFX/build/index.html'' = Some ''<html></html>''"
    by blast
  show ?thesis
    using 1 2 translate_traversal_example respond_traversal_example respond_index_example
    by simp
qed

section \<open>Serving with an error stream that can be written to\<close>









section \<open>C7: what the process writes\<close>



text \<open>
  When there is no error stream at all, the log call raises in the handler and the
  report of \<open>handle_error\<close> goes to standard output, after the two status lines.
\<close>

lemma absent_stderr_report_on_stdout:
  "service Absent example_urllib example_fs
      (Ready (Accepted ''192.0.2.7'' [example_request ''/index.html''] False))
      (state_of (startup example_host))
     = Inr ((state_of (startup example_host))
         \<lparr>stdout := [''Serving HTTPS from: /home/dev/GFX/build'',
                     ''Server running at https://0.0.0.0:8443/'']
                    @ error_report ''192.0.2.7''\<rparr>)"
  by (simp add: service_def handle_request_noblock_def handle_one_request_def
      startup_example state_of_def respond_index_example log_request_def log_message_def
      handle_error_def)



section \<open>C8: when the serve loop returns\<close>





end
